theory Spec2Isabelle
  imports Main "HOL-Library.Sublist"
begin

section \<open>Saving records with objects: \<open>values\<close>, \<open>keys\<close> and \<open>save\<close>\<close>

text \<open>
  The notebook defines three Python functions over an instance of a mapped class:
  \<^verbatim>\<open>
  class User():
      __table__ = 'users'
      columns = ['id', 'name', 'birthday']

  def values(obj):
      obj_attrs = obj.__dict__
      return [obj_attrs[attr] for attr in obj.columns if attr in obj_attrs.keys()]

  def keys(obj):
      obj_attrs = obj.__dict__
      return [attr for attr in obj.columns if attr in obj_attrs.keys()]

  def save(obj, conn, cursor):
      s_str = ', '.join(len(values(obj)) * ['%s'])
      insert_str = f"""INSERT INTO {obj.__table__} ({keys(obj)}) VALUES ({s_str});"""
      cursor.execute(insert_str, values(obj))
      conn.commit()
  \<close>
  These are the definitions of the last code cell, the one executed last; \<open>keys\<close> is
  defined four times in the notebook, three times as above and once, in between, with
  the selected names joined into one string (\<open>keys_joined\<close> below).
\<close>

subsection \<open>Data model\<close>

text \<open>
  Strings are lists of characters, each character a code point below 256.
  An object is described by what the three attribute reads of the code return:
  \<open>obj.__table__\<close>, \<open>obj.columns\<close> and \<open>obj.__dict__\<close>. The first two are normally
  found on the class; the record does not relate them to the instance dictionary, so
  every combination the attribute lookup can produce is an instance of it. The type
  \<open>'v\<close> of attribute values is arbitrary.
\<close>

record 'v obj =
  table :: string
  columns :: "string list"
  dict :: "string \<rightharpoonup> 'v"

text \<open>
  The functions receive a reference to the object; the interpreter state they run in
  holds the objects by reference and, beside them, the state \<open>'w\<close> of the outside world
  that the connection and the cursor act on.
\<close>

type_synonym ref = nat

record ('v, 'w) state =
  heap :: "ref \<Rightarrow> 'v obj"
  world :: 'w

text \<open>
  Exceptions are values: the \<open>KeyError\<close> of a dictionary subscript, and whatever the
  database driver raises (with its message).
\<close>

datatype error = KeyError string | DatabaseError string

type_synonym ('a, 'v, 'w) py = "('v, 'w) state \<Rightarrow> (error + 'a) \<times> ('v, 'w) state"

text \<open>
  The connection and the cursor are owned by the caller: \<open>save\<close> only calls their
  methods, which act on the outside world and may raise. A connection offers
  \<open>rollback\<close> too.
\<close>

record 'w conn =
  commit :: "'w \<Rightarrow> (error + unit) \<times> 'w"
  rollback :: "'w \<Rightarrow> (error + unit) \<times> 'w"

record ('v, 'w) cursor =
  execute :: "string \<Rightarrow> 'v list \<Rightarrow> 'w \<Rightarrow> (error + unit) \<times> 'w"

subsection \<open>Python built-ins used by the code\<close>

text \<open>\<open>k in d.keys()\<close> and \<open>d[k]\<close> for a dictionary \<open>d\<close>.\<close>

definition contains :: "('k \<rightharpoonup> 'v) \<Rightarrow> 'k \<Rightarrow> bool" where
  "contains d k = (d k \<noteq> None)"

definition getitem :: "(string \<rightharpoonup> 'v) \<Rightarrow> string \<Rightarrow> error + 'v" where
  "getitem d k = (case d k of None \<Rightarrow> Inl (KeyError k) | Some v \<Rightarrow> Inr v)"

text \<open>\<open>sep.join(xs)\<close> for a list of strings.\<close>

fun join :: "string \<Rightarrow> string list \<Rightarrow> string" where
  "join sep [] = []"
| "join sep [x] = x"
| "join sep (x # y # ys) = x @ sep @ join sep (y # ys)"

text \<open>
  \<open>repr\<close> of a string: enclosed in single quotes, or in double quotes when the string
  has a single quote and no double quote; the enclosing quote and the backslash are
  escaped, tab, newline and carriage return are written \<open>\t\<close>, \<open>\n\<close>, \<open>\r\<close>, and every
  other non-printable character is written \<open>\xhh\<close>.
\<close>

definition hex_digit :: "nat \<Rightarrow> char" where
  "hex_digit n = ''0123456789abcdef'' ! (n mod 16)"

definition printable :: "char \<Rightarrow> bool" where
  "printable c = (let n = (of_char c :: nat) in
     (32 \<le> n \<and> n < 127) \<or> (161 \<le> n \<and> n \<noteq> 173))"

definition repr_char :: "char \<Rightarrow> char \<Rightarrow> string" where
  "repr_char quote c =
     (if c = quote \<or> c = CHR 0x5C then [CHR 0x5C, c]
      else if c = CHR 0x09 then [CHR 0x5C, CHR ''t'']
      else if c = CHR 0x0A then [CHR 0x5C, CHR ''n'']
      else if c = CHR 0x0D then [CHR 0x5C, CHR ''r'']
      else if printable c then [c]
      else [CHR 0x5C, CHR ''x'', hex_digit (of_char c div 16), hex_digit (of_char c)])"

definition repr_str :: "string \<Rightarrow> string" where
  "repr_str s =
     (let quote = (if CHR 0x27 \<in> set s \<and> CHR 0x22 \<notin> set s then CHR 0x22 else CHR 0x27)
      in [quote] @ concat (map (repr_char quote) s) @ [quote])"

text \<open>
  \<open>str\<close> of a list of strings, which is what an f-string field \<open>{xs}\<close> inserts: the
  \<open>repr\<close> of each element, separated by comma and space, in square brackets.
\<close>

definition str_list :: "string list \<Rightarrow> string" where
  "str_list xs = ''['' @ join '', '' (map repr_str xs) @ '']''"

subsection \<open>The three functions\<close>

text \<open>
  The list comprehension of \<open>values\<close>: the subscript \<open>obj_attrs[attr]\<close> is evaluated for
  the names that pass the filter, and raises \<open>KeyError\<close> for a name that is not a key.
\<close>

fun values_comprehension :: "(string \<rightharpoonup> 'v) \<Rightarrow> string list \<Rightarrow> error + 'v list" where
  "values_comprehension obj_attrs [] = Inr []"
| "values_comprehension obj_attrs (attr # rest) =
     (if contains obj_attrs attr
      then (case getitem obj_attrs attr of
              Inl e \<Rightarrow> Inl e
            | Inr v \<Rightarrow> (case values_comprehension obj_attrs rest of
                         Inl e \<Rightarrow> Inl e
                       | Inr vs \<Rightarrow> Inr (v # vs)))
      else values_comprehension obj_attrs rest)"

definition "values" :: "ref \<Rightarrow> ('v list, 'v, 'w) py" where
  "values obj s =
     (let obj_attrs = dict (heap s obj)
      in (values_comprehension obj_attrs (columns (heap s obj)), s))"

definition keys :: "ref \<Rightarrow> (string list, 'v, 'w) py" where
  "keys obj s =
     (let obj_attrs = dict (heap s obj)
      in (Inr [attr \<leftarrow> columns (heap s obj). contains obj_attrs attr], s))"

text \<open>
  The definition of \<open>keys\<close> in the cell that introduces the joined string
  (\<open>selected = [...]; return ', '.join(selected)\<close>); the later cells redefine \<open>keys\<close>
  without the join.
\<close>

definition keys_joined :: "ref \<Rightarrow> (string, 'v, 'w) py" where
  "keys_joined obj s =
     (let obj_attrs = dict (heap s obj);
          selected = [attr \<leftarrow> columns (heap s obj). contains obj_attrs attr]
      in (Inr (join '', '' selected), s))"

text \<open>
  \<open>save\<close>: \<open>values\<close> is called for the placeholders, \<open>keys\<close> inside the f-string,
  \<open>values\<close> again for the parameters; then \<open>cursor.execute\<close> and \<open>conn.commit\<close>. An
  exception ends the function where it is raised. The function returns \<open>None\<close>.
\<close>

definition save :: "ref \<Rightarrow> 'w conn \<Rightarrow> ('v, 'w) cursor \<Rightarrow> (unit, 'v, 'w) py" where
  "save obj conn cursor s0 =
     (case values obj s0 of
        (Inl e, s1) \<Rightarrow> (Inl e, s1)
      | (Inr vs, s1) \<Rightarrow>
          let s_str = join '', '' (replicate (length vs) ''%s'') in
          (case keys obj s1 of
             (Inl e, s2) \<Rightarrow> (Inl e, s2)
           | (Inr ks, s2) \<Rightarrow>
               let insert_str = ''INSERT INTO '' @ table (heap s2 obj) @ '' ('' @ str_list ks
                                  @ '') VALUES ('' @ s_str @ '');'' in
               (case values obj s2 of
                  (Inl e, s3) \<Rightarrow> (Inl e, s3)
                | (Inr params, s3) \<Rightarrow>
                    (case execute cursor insert_str params (world s3) of
                       (Inl e, w4) \<Rightarrow> (Inl e, s3\<lparr>world := w4\<rparr>)
                     | (Inr u, w4) \<Rightarrow>
                         (case commit conn w4 of
                            (Inl e, w5) \<Rightarrow> (Inl e, s3\<lparr>world := w5\<rparr>)
                          | (Inr u', w5) \<Rightarrow> (Inr (), s3\<lparr>world := w5\<rparr>))))))"

subsection \<open>A recording connection and the notebook's example\<close>

text \<open>
  To observe which calls \<open>save\<close> makes, the outside world is taken to be the log of the
  calls made so far. The recording cursor and connection append to it; whether a call
  raises, and what, is left to an arbitrary function of the call.
\<close>

datatype 'v event = Execute string "'v list" | Commit | Rollback

definition recording_cursor ::
  "(string \<Rightarrow> 'v list \<Rightarrow> 'v event list \<Rightarrow> error option) \<Rightarrow> ('v, 'v event list) cursor" where
  "recording_cursor raises =
     \<lparr>execute = (\<lambda>sql params log.
        ((case raises sql params log of None \<Rightarrow> Inr () | Some e \<Rightarrow> Inl e),
         log @ [Execute sql params]))\<rparr>"

definition recording_conn :: "('v event list \<Rightarrow> error option) \<Rightarrow> 'v event list conn" where
  "recording_conn raises =
     \<lparr>commit = (\<lambda>log. ((case raises log of None \<Rightarrow> Inr () | Some e \<Rightarrow> Inl e), log @ [Commit])),
      rollback = (\<lambda>log. (Inr (), log @ [Rollback]))\<rparr>"

text \<open>
  \<^verbatim>\<open>
  user = User()
  user.name = 'bob'
  user.birthday = '3/5/1997'
  \<close>
  \<open>User\<close> is the instance as constructed, \<open>user\<close> the instance after the two assignments.
\<close>

definition User :: "string obj" where
  "User = \<lparr>table = ''users'', columns = [''id'', ''name'', ''birthday''], dict = Map.empty\<rparr>"

definition user :: "string obj" where
  "user = User\<lparr>dict := [''name'' \<mapsto> ''bob'', ''birthday'' \<mapsto> ''3/5/1997'']\<rparr>"

text \<open>A state in which every reference holds the given object and nothing was logged.\<close>

definition session :: "'v obj \<Rightarrow> ('v, 'v event list) state" where
  "session ob = \<lparr>heap = (\<lambda>r. ob), world = []\<rparr>"

subsection \<open>Attribute lookup\<close>

text \<open>
  Where the three reads come from. \<open>__table__\<close> and \<open>columns\<close> are attributes of the
  class, \<open>__dict__\<close> is the dictionary of the instance; a read \<open>obj.name\<close> returns the
  entry of the instance dictionary when there is one and the attribute of the class
  otherwise, so an instance attribute called \<open>columns\<close> or \<open>__table__\<close> takes the place
  of the class's. The values of instance attributes are strings or lists of strings.
\<close>

datatype pyval = Str string | StrList "string list"

record py_instance =
  class_table :: string
  class_columns :: "string list"
  instance_dict :: "string \<rightharpoonup> pyval"

text \<open>
  \<open>for attr in v\<close> runs through the elements of a list and through the characters of
  a string, each a string of length one; an f-string field inserts a string as it is
  and a list as \<open>str\<close> prints it.
\<close>

definition iterate :: "pyval \<Rightarrow> string list" where
  "iterate v = (case v of Str s \<Rightarrow> map (\<lambda>ch. [ch]) s | StrList xs \<Rightarrow> xs)"

definition str_of :: "pyval \<Rightarrow> string" where
  "str_of v = (case v of Str s \<Rightarrow> s | StrList xs \<Rightarrow> str_list xs)"

definition resolve :: "py_instance \<Rightarrow> pyval obj" where
  "resolve inst =
     \<lparr>table = (case instance_dict inst ''__table__'' of
                 Some v \<Rightarrow> str_of v | None \<Rightarrow> class_table inst),
      columns = (case instance_dict inst ''columns'' of
                 Some v \<Rightarrow> iterate v | None \<Rightarrow> class_columns inst),
      dict = instance_dict inst\<rparr>"

text \<open>
  The notebook's \<open>user\<close> again, as class and instance, and an instance whose own
  \<open>columns\<close> attribute stands before the class's:
  \<^verbatim>\<open>
  class Shadowing():
      __table__ = 'users'
      columns = ['columns']

  shadowing = Shadowing()
  shadowing.columns = ['columns', 'name']
  shadowing.name = 'bob'
  \<close>
\<close>

definition user_instance :: py_instance where
  "user_instance =
     \<lparr>class_table = ''users'', class_columns = [''id'', ''name'', ''birthday''],
      instance_dict = [''name'' \<mapsto> Str ''bob'', ''birthday'' \<mapsto> Str ''3/5/1997'']\<rparr>"

definition shadowing :: py_instance where
  "shadowing =
     \<lparr>class_table = ''users'', class_columns = [''columns''],
      instance_dict = [''columns'' \<mapsto> StrList [''columns'', ''name''], ''name'' \<mapsto> Str ''bob'']\<rparr>"

section \<open>Properties\<close>

subsection \<open>What the comprehensions compute\<close>

lemma values_comprehension_eq:
  "values_comprehension d cols = Inr (List.map_filter d cols)"
  by (induction cols) (auto simp: contains_def getitem_def map_filter_simps split: option.splits)

lemma values_eq:
  "values obj s = (Inr (List.map_filter (dict (heap s obj)) (columns (heap s obj))), s)"
  by (simp add: values_def values_comprehension_eq)

lemma keys_eq:
  "keys obj s = (Inr (filter (contains (dict (heap s obj))) (columns (heap s obj))), s)"
  by (simp add: keys_def)

lemma map_filter_aligned:
  "map Some (List.map_filter d cols) = map d (filter (contains d) cols)"
  by (induction cols) (auto simp: contains_def map_filter_simps split: option.splits)

lemma map_filter_length:
  "length (List.map_filter d cols) = length (filter (contains d) cols)"
  using map_filter_aligned [of d cols, THEN arg_cong, of length] by simp

lemma aligned_nth:
  assumes "i < length (filter (contains d) cols)"
  shows "d (filter (contains d) cols ! i) = Some (List.map_filter d cols ! i)"
proof -
  have "map d (filter (contains d) cols) ! i = map Some (List.map_filter d cols) ! i"
    by (simp add: map_filter_aligned)
  with assms show ?thesis by (simp add: map_filter_length)
qed

text \<open>The same comprehensions over a dictionary \<open>d'\<close> that is \<open>d\<close> without the key \<open>c\<close>.\<close>

lemma keys_omit:
  assumes "\<And>a. d' a = (if a = c then None else d a)"
  shows "filter (contains d') cols = filter (\<lambda>k. k \<noteq> c) (filter (contains d) cols)"
  by (induction cols) (simp_all add: contains_def assms)

lemma zip_omit:
  assumes "\<And>a. d' a = (if a = c then None else d a)"
  shows "zip (filter (contains d') cols) (List.map_filter d' cols) =
    filter (\<lambda>p. fst p \<noteq> c) (zip (filter (contains d) cols) (List.map_filter d cols))"
proof (induction cols)
  case Nil
  show ?case by (simp add: map_filter_simps)
next
  case (Cons a cols)
  show ?case
  proof (cases "d a")
    case None
    then show ?thesis
      using Cons.IH by (simp add: map_filter_simps contains_def assms)
  next
    case (Some v)
    then show ?thesis
      using Cons.IH by (simp add: map_filter_simps contains_def assms)
  qed
qed

lemma omit_one:
  assumes "\<And>a. d' a = (if a = c then None else d a)"
    and "distinct cols" and "c \<in> set cols" and "contains d c"
  shows "Suc (length (filter (contains d') cols)) = length (filter (contains d) cols)"
proof -
  let ?ks = "filter (contains d) cols"
  from assms have "distinct ?ks" and in_ks: "c \<in> set ?ks" by simp_all
  then have "length (removeAll c ?ks) = length ?ks - 1"
    by (simp add: distinct_remove1_removeAll [symmetric] length_remove1)
  moreover from in_ks have "0 < length ?ks"
    by (cases ?ks) simp_all
  moreover have "removeAll c ?ks = filter (\<lambda>k. k \<noteq> c) ?ks"
    by (simp add: removeAll_filter_not_eq) metis
  ultimately show ?thesis by (simp add: keys_omit [OF assms(1)])
qed

text \<open>The definitions to unfold when an example is evaluated.\<close>

lemmas ex_defs = session_def user_def User_def contains_def getitem_def keys_def values_def
  keys_joined_def str_list_def repr_str_def repr_char_def printable_def
  recording_conn_def recording_cursor_def

subsection \<open>Fully populated objects\<close>

text \<open>
  C3. When every declared column has an attribute on the instance, \<open>keys\<close> and \<open>values\<close>
  both return normally, leave the state as it was, and return lists of the same length
  in which the value at each position is the attribute value of the name at that
  position; \<open>keys\<close> is then the whole columns list.
\<close>

theorem keys_values_same_length_and_order:
  assumes "set (columns (heap s obj)) \<subseteq> dom (dict (heap s obj))"
  shows "\<exists>ks vs. keys obj s = (Inr ks, s) \<and> values obj s = (Inr vs, s)
           \<and> ks = columns (heap s obj) \<and> length ks = length vs
           \<and> (\<forall>i<length ks. dict (heap s obj) (ks ! i) = Some (vs ! i))"
proof -
  let ?d = "dict (heap s obj)" and ?cols = "columns (heap s obj)"
  from assms have all: "filter (contains ?d) ?cols = ?cols"
    by (auto simp: contains_def filter_id_conv)
  have "length ?cols = length (List.map_filter ?d ?cols)"
    using map_filter_length [of ?d ?cols] all by simp
  moreover have "\<forall>i<length ?cols. ?d (?cols ! i) = Some (List.map_filter ?d ?cols ! i)"
    using aligned_nth [of _ ?d ?cols] all by simp
  ultimately show ?thesis
    by (simp add: keys_eq values_eq all)
qed

theorem keys_values_same_length_and_order_witness:
  "set (columns (heap (session (user\<lparr>dict := (dict user)(''id'' \<mapsto> ''7'')\<rparr>)) 0))
     \<subseteq> dom (dict (heap (session (user\<lparr>dict := (dict user)(''id'' \<mapsto> ''7'')\<rparr>)) 0))
   \<and> (\<exists>ks vs. keys 0 (session (user\<lparr>dict := (dict user)(''id'' \<mapsto> ''7'')\<rparr>))
                 = (Inr ks, session (user\<lparr>dict := (dict user)(''id'' \<mapsto> ''7'')\<rparr>))
         \<and> values 0 (session (user\<lparr>dict := (dict user)(''id'' \<mapsto> ''7'')\<rparr>))
                 = (Inr vs, session (user\<lparr>dict := (dict user)(''id'' \<mapsto> ''7'')\<rparr>))
         \<and> ks = [''id'', ''name'', ''birthday''] \<and> vs = [''7'', ''bob'', ''3/5/1997''])"
proof -
  let ?s = "session (user\<lparr>dict := (dict user)(''id'' \<mapsto> ''7'')\<rparr>)"
  have h: "set (columns (heap ?s 0)) \<subseteq> dom (dict (heap ?s 0))"
    by (simp add: session_def user_def User_def)
  from keys_values_same_length_and_order [OF h]
  obtain ks vs where kv: "keys 0 ?s = (Inr ks, ?s)" "values 0 ?s = (Inr vs, ?s)"
    by blast
  have "keys 0 ?s = (Inr [''id'', ''name'', ''birthday''], ?s)"
    by (simp add: keys_def session_def user_def User_def contains_def)
  moreover have "values 0 ?s = (Inr [''7'', ''bob'', ''3/5/1997''], ?s)"
    by (simp add: values_def session_def user_def User_def contains_def getitem_def)
  ultimately show ?thesis using h kv by simp
qed

subsection \<open>Omitting an attribute\<close>

text \<open>
  Two states of an object with the same columns list, the second with the dictionary of
  the first without the key \<open>c\<close>: the pairs of name and value of the second are those
  of the first without the pairs whose name is \<open>c\<close>, in the same order.
\<close>

lemma omit_attr_same_columns:
  fixes s :: "('v, 'w) state" and s' :: "('v, 'u) state"
  assumes cols': "columns (heap s' obj) = columns (heap s obj)"
    and d': "\<And>a. dict (heap s' obj) a = (if a = c then None else dict (heap s obj) a)"
  shows "\<exists>ks vs ks' vs'.
           keys obj s = (Inr ks, s) \<and> values obj s = (Inr vs, s)
         \<and> keys obj s' = (Inr ks', s') \<and> values obj s' = (Inr vs', s')
         \<and> length ks = length vs \<and> length ks' = length vs'
         \<and> ks' = filter (\<lambda>k. k \<noteq> c) ks
         \<and> zip ks' vs' = filter (\<lambda>p. fst p \<noteq> c) (zip ks vs)
         \<and> (\<forall>i<length ks'. dict (heap s obj) (ks' ! i) = Some (vs' ! i))
         \<and> (distinct (columns (heap s obj)) \<and> c \<in> set ks \<longrightarrow> Suc (length ks') = length ks)"
proof -
  let ?d = "dict (heap s obj)" and ?cols = "columns (heap s obj)"
  let ?d' = "dict (heap s' obj)"
  let ?ks = "filter (contains ?d) ?cols" and ?vs = "List.map_filter ?d ?cols"
  let ?ks' = "filter (contains ?d') ?cols" and ?vs' = "List.map_filter ?d' ?cols"
  have k: "keys obj s = (Inr ?ks, s)" and v: "values obj s = (Inr ?vs, s)"
    by (rule keys_eq, rule values_eq)
  have k': "keys obj s' = (Inr ?ks', s')" and v': "values obj s' = (Inr ?vs', s')"
    using keys_eq [of obj s'] values_eq [of obj s'] by (simp_all only: cols')
  have len: "length ?ks = length ?vs" and len': "length ?ks' = length ?vs'"
    by (simp_all add: map_filter_length)
  have filt: "?ks' = filter (\<lambda>k. k \<noteq> c) ?ks"
    by (rule keys_omit [OF d'])
  have zp: "zip ?ks' ?vs' = filter (\<lambda>p. fst p \<noteq> c) (zip ?ks ?vs)"
    by (rule zip_omit [OF d'])
  have al: "\<forall>i<length ?ks'. ?d (?ks' ! i) = Some (?vs' ! i)"
  proof (intro allI impI)
    fix i assume i: "i < length ?ks'"
    then have "?ks' ! i \<in> set ?ks'" by (rule nth_mem)
    then have "?ks' ! i \<noteq> c" unfolding filt by simp
    then have "?d (?ks' ! i) = ?d' (?ks' ! i)" by (simp add: d')
    also have "\<dots> = Some (?vs' ! i)" using i by (rule aligned_nth)
    finally show "?d (?ks' ! i) = Some (?vs' ! i)" .
  qed
  have one: "distinct ?cols \<and> c \<in> set ?ks \<longrightarrow> Suc (length ?ks') = length ?ks"
    using omit_one [OF d', of ?cols] by simp
  from k v k' v' len len' filt zp al one show ?thesis by blast
qed

lemma resolve_columns_unchanged:
  "c \<noteq> ''columns'' \<Longrightarrow>
   columns (resolve (inst\<lparr>instance_dict := (instance_dict inst)(c := None)\<rparr>)) = columns (resolve inst)"
  by (simp add: resolve_def split: option.splits)

text \<open>
  C4, as stated, fails when the attribute removed is an instance attribute \<open>columns\<close>.
  For \<open>shadowing\<close>, the name \<open>columns\<close> is declared and set, and \<open>keys\<close> and \<open>values\<close>
  have two entries each. Without that attribute \<open>obj.columns\<close> is the list of the class,
  \<open>['columns']\<close>, of which nothing is set: both outputs are empty, so the entry for
  \<open>name\<close>, still set to \<open>'bob'\<close>, has gone with the one for \<open>columns\<close>.
\<close>

theorem removing_shadowing_columns_counterexample:
  "''columns'' \<in> set (columns (resolve shadowing))
   \<and> keys 0 (session (resolve shadowing))
       = (Inr [''columns'', ''name''], session (resolve shadowing))
   \<and> values 0 (session (resolve shadowing))
       = (Inr [StrList [''columns'', ''name''], Str ''bob''], session (resolve shadowing))
   \<and> keys 0 (session (resolve
         (shadowing\<lparr>instance_dict := (instance_dict shadowing)(''columns'' := None)\<rparr>)))
       = (Inr [], session (resolve
         (shadowing\<lparr>instance_dict := (instance_dict shadowing)(''columns'' := None)\<rparr>)))
   \<and> values 0 (session (resolve
         (shadowing\<lparr>instance_dict := (instance_dict shadowing)(''columns'' := None)\<rparr>)))
       = (Inr [], session (resolve
         (shadowing\<lparr>instance_dict := (instance_dict shadowing)(''columns'' := None)\<rparr>)))
   \<and> instance_dict (shadowing\<lparr>instance_dict := (instance_dict shadowing)(''columns'' := None)\<rparr>)
         ''name'' = Some (Str ''bob'')
   \<and> filter (\<lambda>k. k \<noteq> ''columns'') [''columns'', ''name''] = [''name'']
   \<and> [''name''] \<noteq> ([] :: string list)"
  by (simp add: resolve_def shadowing_def iterate_def session_def keys_def values_def
      contains_def getitem_def)

text \<open>
  C4, amended. Let \<open>obj.columns\<close> return the same list after the removal of the
  attribute \<open>c\<close> from the instance dictionary as before, which is so whenever \<open>c\<close> is
  not \<open>columns\<close>. Then, before and after, \<open>keys\<close> and \<open>values\<close> return normally with
  lists of equal length; the pairs of name and value after the removal are those before
  it without the pairs whose name is \<open>c\<close>, in the same order, so every remaining name
  still stands beside the value of its attribute; and when the columns list has no
  repetition and \<open>c\<close> was among the keys, exactly one entry is gone.
\<close>

theorem removing_attribute:
  fixes s :: "(pyval, 'w) state" and obj :: ref and inst :: py_instance and c :: string
  defines "inst' \<equiv> inst\<lparr>instance_dict := (instance_dict inst)(c := None)\<rparr>"
  defines "s' \<equiv> s\<lparr>heap := (heap s)(obj := resolve inst')\<rparr>"
  assumes s: "heap s obj = resolve inst"
    and same: "c \<noteq> ''columns'' \<or> columns (resolve inst') = columns (resolve inst)"
  shows "\<exists>ks vs ks' vs'.
           keys obj s = (Inr ks, s) \<and> values obj s = (Inr vs, s)
         \<and> keys obj s' = (Inr ks', s') \<and> values obj s' = (Inr vs', s')
         \<and> length ks = length vs \<and> length ks' = length vs'
         \<and> ks' = filter (\<lambda>k. k \<noteq> c) ks
         \<and> zip ks' vs' = filter (\<lambda>p. fst p \<noteq> c) (zip ks vs)
         \<and> (\<forall>i<length ks'. instance_dict inst (ks' ! i) = Some (vs' ! i))
         \<and> (distinct (columns (resolve inst)) \<and> c \<in> set ks \<longrightarrow> Suc (length ks') = length ks)"
proof -
  have "columns (resolve inst') = columns (resolve inst)"
  proof (cases "c = ''columns''")
    case True
    with same show ?thesis by simp
  next
    case False
    then show ?thesis unfolding inst'_def by (rule resolve_columns_unchanged)
  qed
  then have cols': "columns (heap s' obj) = columns (heap s obj)"
    by (simp add: s'_def s)
  have d: "dict (heap s obj) = instance_dict inst"
    by (simp add: s resolve_def)
  have d': "dict (heap s' obj) a = (if a = c then None else dict (heap s obj) a)" for a
    by (simp add: s'_def d inst'_def resolve_def)
  have di: "dict (resolve inst) = instance_dict inst"
    by (simp add: resolve_def)
  from omit_attr_same_columns [OF cols' d'] show ?thesis
    by (simp only: s di)
qed

theorem removing_attribute_witness:
  "heap (session (resolve user_instance)) 0 = resolve user_instance
   \<and> ''name'' \<noteq> ''columns'' \<and> ''name'' \<in> set (columns (resolve user_instance))
   \<and> distinct (columns (resolve user_instance))
   \<and> keys 0 (session (resolve user_instance))
       = (Inr [''name'', ''birthday''], session (resolve user_instance))
   \<and> (\<exists>ks' vs'.
         keys 0 ((session (resolve user_instance))\<lparr>heap := (heap (session (resolve user_instance)))
            (0 := resolve (user_instance\<lparr>instance_dict :=
                     (instance_dict user_instance)(''name'' := None)\<rparr>))\<rparr>)
           = (Inr ks', (session (resolve user_instance))\<lparr>heap := (heap (session (resolve user_instance)))
            (0 := resolve (user_instance\<lparr>instance_dict :=
                     (instance_dict user_instance)(''name'' := None)\<rparr>))\<rparr>)
       \<and> values 0 ((session (resolve user_instance))\<lparr>heap := (heap (session (resolve user_instance)))
            (0 := resolve (user_instance\<lparr>instance_dict :=
                     (instance_dict user_instance)(''name'' := None)\<rparr>))\<rparr>)
           = (Inr vs', (session (resolve user_instance))\<lparr>heap := (heap (session (resolve user_instance)))
            (0 := resolve (user_instance\<lparr>instance_dict :=
                     (instance_dict user_instance)(''name'' := None)\<rparr>))\<rparr>)
       \<and> zip ks' vs' = [(''birthday'', Str ''3/5/1997'')]
       \<and> Suc (length ks') = length [''name'', ''birthday''])"
proof -
  let ?s = "session (resolve user_instance)"
  let ?inst' = "user_instance\<lparr>instance_dict := (instance_dict user_instance)(''name'' := None)\<rparr>"
  let ?s' = "?s\<lparr>heap := (heap ?s)(0 := resolve ?inst')\<rparr>"
  have h: "heap ?s 0 = resolve user_instance"
    by (simp add: session_def)
  have ne: "''name'' \<noteq> ''columns'' \<or> columns (resolve ?inst') = columns (resolve user_instance)"
    by simp
  have d: "distinct (columns (resolve user_instance))"
    and m: "''name'' \<in> set (columns (resolve user_instance))"
    by (simp_all add: resolve_def user_instance_def)
  from removing_attribute [OF h ne]
  obtain ks vs ks' vs' where
    k0: "keys 0 ?s = (Inr ks, ?s)" and v0: "values 0 ?s = (Inr vs, ?s)"
    and k': "keys 0 ?s' = (Inr ks', ?s')" and v': "values 0 ?s' = (Inr vs', ?s')"
    and zp: "zip ks' vs' = filter (\<lambda>p. fst p \<noteq> ''name'') (zip ks vs)"
    and one: "distinct (columns (resolve user_instance)) \<and> ''name'' \<in> set ks
                \<longrightarrow> Suc (length ks') = length ks"
    by blast
  from k0 have ks: "ks = [''name'', ''birthday'']"
    by (simp add: keys_def session_def resolve_def user_instance_def contains_def)
  from v0 have vs: "vs = [Str ''bob'', Str ''3/5/1997'']"
    by (simp add: values_def session_def resolve_def user_instance_def contains_def getitem_def)
  from zp have z: "zip ks' vs' = [(''birthday'', Str ''3/5/1997'')]"
    by (simp add: ks vs)
  from one d have l: "Suc (length ks') = length [''name'', ''birthday'']"
    by (simp add: ks)
  from k0 have k: "keys 0 ?s = (Inr [''name'', ''birthday''], ?s)"
    by (simp only: ks)
  from k' v' z l have "\<exists>ks' vs'. keys 0 ?s' = (Inr ks', ?s') \<and> values 0 ?s' = (Inr vs', ?s')
       \<and> zip ks' vs' = [(''birthday'', Str ''3/5/1997'')]
       \<and> Suc (length ks') = length [''name'', ''birthday'']"
    by blast
  with h d m k show ?thesis by simp
qed

subsection \<open>Declared and set\<close>

lemma agree_on_columns_keys:
  "\<forall>a\<in>set cols. d2 a = d1 a \<Longrightarrow> filter (contains d2) cols = filter (contains d1) cols"
  by (intro filter_cong) (simp_all add: contains_def)

lemma agree_on_columns_values:
  "\<forall>a\<in>set cols. d2 a = d1 a \<Longrightarrow> List.map_filter d2 cols = List.map_filter d1 cols"
  by (induction cols) (simp_all add: map_filter_simps split: option.splits)

text \<open>
  \<open>save\<close> for an arbitrary connection and cursor: \<open>values\<close> and \<open>keys\<close> never raise,
  so the calls that remain are one \<open>execute\<close>, with the statement text and the values,
  and, when it returned, one \<open>commit\<close>.
\<close>

lemma save_eq:
  fixes s :: "('v, 'w) state" and cursor :: "('v, 'w) cursor" and obj :: ref
  defines "ob \<equiv> heap s obj"
  defines "ks \<equiv> filter (contains (dict ob)) (columns ob)"
  defines "params \<equiv> List.map_filter (dict ob) (columns ob)"
  defines "stmt \<equiv> ''INSERT INTO '' @ table ob @ '' ('' @ str_list ks @ '') VALUES (''
                    @ join '', '' (replicate (length params) ''%s'') @ '');''"
  shows "save obj conn cursor s =
    (case execute cursor stmt params (world s) of
       (Inl e, w) \<Rightarrow> (Inl e, s\<lparr>world := w\<rparr>)
     | (Inr u, w) \<Rightarrow>
         (case commit conn w of
            (Inl e, w') \<Rightarrow> (Inl e, s\<lparr>world := w'\<rparr>)
          | (Inr u', w') \<Rightarrow> (Inr (), s\<lparr>world := w'\<rparr>)))"
  unfolding save_def values_eq keys_eq ob_def ks_def params_def stmt_def
  by (simp split: prod.splits sum.splits)

text \<open>
  C5. \<open>keys\<close> and \<open>values\<close> never raise. The names returned are the declared columns
  that are keys of the instance dictionary, in declared order (a subsequence of the
  columns list), and the values are the attribute values of these names, position by
  position; a declared column that is not set is just absent. Attributes outside the
  columns list have no influence: a state \<open>t\<close> whose object has the same columns and
  agrees on the declared columns, whatever else is set on it, gives the same names and
  values, and, with the same table and world, the same result and the same outside
  world after \<open>save\<close>.
\<close>

theorem keys_values_declared_and_set:
  fixes s t :: "('v, 'w) state" and obj :: ref
  shows "\<exists>ks vs.
      keys obj s = (Inr ks, s) \<and> values obj s = (Inr vs, s)
    \<and> ks = filter (\<lambda>a. a \<in> dom (dict (heap s obj))) (columns (heap s obj))
    \<and> subseq ks (columns (heap s obj))
    \<and> set ks = set (columns (heap s obj)) \<inter> dom (dict (heap s obj))
    \<and> map Some vs = map (dict (heap s obj)) ks
    \<and> (columns (heap t obj) = columns (heap s obj)
         \<and> (\<forall>a\<in>set (columns (heap s obj)). dict (heap t obj) a = dict (heap s obj) a)
       \<longrightarrow> keys obj t = (Inr ks, t) \<and> values obj t = (Inr vs, t)
           \<and> (table (heap t obj) = table (heap s obj) \<and> world t = world s
              \<longrightarrow> fst (save obj conn cursor t) = fst (save obj conn cursor s)
                \<and> world (snd (save obj conn cursor t)) = world (snd (save obj conn cursor s))))"
proof -
  let ?d = "dict (heap s obj)" and ?cols = "columns (heap s obj)"
  let ?ks = "filter (contains ?d) ?cols" and ?vs = "List.map_filter ?d ?cols"
  have c: "contains ?d = (\<lambda>a. a \<in> dom ?d)"
    by (auto simp: contains_def fun_eq_iff)
  have 1: "?ks = filter (\<lambda>a. a \<in> dom ?d) ?cols"
    by (simp only: c)
  have 2: "subseq ?ks ?cols"
    by (rule subseq_filter_left)
  have 3: "set ?ks = set ?cols \<inter> dom ?d"
    by (auto simp: c)
  have 4: "map Some ?vs = map ?d ?ks"
    by (rule map_filter_aligned)
  have 5: "keys obj t = (Inr ?ks, t) \<and> values obj t = (Inr ?vs, t)
           \<and> (table (heap t obj) = table (heap s obj) \<and> world t = world s
              \<longrightarrow> fst (save obj conn cursor t) = fst (save obj conn cursor s)
                \<and> world (snd (save obj conn cursor t)) = world (snd (save obj conn cursor s)))"
    if cols: "columns (heap t obj) = ?cols"
      and agree: "\<forall>a\<in>set ?cols. dict (heap t obj) a = ?d a"
  proof -
    have k: "filter (contains (dict (heap t obj))) ?cols = ?ks"
      using agree by (rule agree_on_columns_keys)
    have v: "List.map_filter (dict (heap t obj)) ?cols = ?vs"
      using agree by (rule agree_on_columns_values)
    have "keys obj t = (Inr ?ks, t)" and "values obj t = (Inr ?vs, t)"
      by (simp_all add: keys_eq values_eq cols k v)
    moreover have "fst (save obj conn cursor t) = fst (save obj conn cursor s)
        \<and> world (snd (save obj conn cursor t)) = world (snd (save obj conn cursor s))"
      if tb: "table (heap t obj) = table (heap s obj)" and w: "world t = world s"
    proof -
      let ?stmt = "''INSERT INTO '' @ table (heap s obj) @ '' ('' @ str_list ?ks @ '') VALUES (''
                    @ join '', '' (replicate (length ?vs) ''%s'') @ '');''"
      obtain r w1 where ex: "execute cursor ?stmt ?vs (world s) = (r, w1)"
        by (cases "execute cursor ?stmt ?vs (world s)")
      obtain r' w2 where cm: "commit conn w1 = (r', w2)"
        by (cases "commit conn w1")
      have "save obj conn cursor s =
          (case r of Inl e \<Rightarrow> (Inl e, s\<lparr>world := w1\<rparr>)
           | Inr u \<Rightarrow> (case r' of Inl e \<Rightarrow> (Inl e, s\<lparr>world := w2\<rparr>)
                               | Inr u' \<Rightarrow> (Inr (), s\<lparr>world := w2\<rparr>)))"
        by (simp only: save_eq ex cm prod.case)
      moreover have "save obj conn cursor t =
          (case r of Inl e \<Rightarrow> (Inl e, t\<lparr>world := w1\<rparr>)
           | Inr u \<Rightarrow> (case r' of Inl e \<Rightarrow> (Inl e, t\<lparr>world := w2\<rparr>)
                               | Inr u' \<Rightarrow> (Inr (), t\<lparr>world := w2\<rparr>)))"
        by (simp only: save_eq cols k v tb w ex cm prod.case)
      ultimately show ?thesis
        by (cases r; cases r') simp_all
    qed
    ultimately show ?thesis by blast
  qed
  show ?thesis
  proof (intro exI conjI)
    show "keys obj s = (Inr ?ks, s)" by (rule keys_eq)
    show "values obj s = (Inr ?vs, s)" by (rule values_eq)
    show "?ks = filter (\<lambda>a. a \<in> dom ?d) ?cols" by (rule 1)
    show "subseq ?ks ?cols" by (rule 2)
    show "set ?ks = set ?cols \<inter> dom ?d" by (rule 3)
    show "map Some ?vs = map ?d ?ks" by (rule 4)
    show "columns (heap t obj) = ?cols \<and> (\<forall>a\<in>set ?cols. dict (heap t obj) a = ?d a)
       \<longrightarrow> keys obj t = (Inr ?ks, t) \<and> values obj t = (Inr ?vs, t)
           \<and> (table (heap t obj) = table (heap s obj) \<and> world t = world s
              \<longrightarrow> fst (save obj conn cursor t) = fst (save obj conn cursor s)
                \<and> world (snd (save obj conn cursor t)) = world (snd (save obj conn cursor s)))"
      using 5 by blast
  qed
qed

theorem keys_values_declared_and_set_witness:
  "dict (heap (session (user\<lparr>dict := (dict user)(''nickname'' \<mapsto> ''bobby'')\<rparr>)) 0) ''nickname''
     = Some ''bobby''
   \<and> ''id'' \<in> set (columns (heap (session user) 0)) \<and> dict (heap (session user) 0) ''id'' = None
   \<and> keys 0 (session (user\<lparr>dict := (dict user)(''nickname'' \<mapsto> ''bobby'')\<rparr>))
       = (Inr [''name'', ''birthday''],
          session (user\<lparr>dict := (dict user)(''nickname'' \<mapsto> ''bobby'')\<rparr>))
   \<and> values 0 (session (user\<lparr>dict := (dict user)(''nickname'' \<mapsto> ''bobby'')\<rparr>))
       = (Inr [''bob'', ''3/5/1997''],
          session (user\<lparr>dict := (dict user)(''nickname'' \<mapsto> ''bobby'')\<rparr>))
   \<and> world (snd (save 0 (recording_conn (\<lambda>log. None)) (recording_cursor (\<lambda>sql params log. None))
         (session (user\<lparr>dict := (dict user)(''nickname'' \<mapsto> ''bobby'')\<rparr>))))
     = world (snd (save 0 (recording_conn (\<lambda>log. None)) (recording_cursor (\<lambda>sql params log. None))
         (session user)))"
proof -
  let ?s = "session user"
  let ?t = "session (user\<lparr>dict := (dict user)(''nickname'' \<mapsto> ''bobby'')\<rparr>)"
  let ?conn = "recording_conn (\<lambda>log. None) :: string event list conn"
  let ?cursor = "recording_cursor (\<lambda>sql params log. None) :: (string, string event list) cursor"
  have hyp: "columns (heap ?t 0) = columns (heap ?s 0)
      \<and> (\<forall>a\<in>set (columns (heap ?s 0)). dict (heap ?t 0) a = dict (heap ?s 0) a)"
    by (simp add: session_def user_def User_def)
  have same: "table (heap ?t 0) = table (heap ?s 0) \<and> world ?t = world ?s"
    by (simp add: session_def)
  from keys_values_declared_and_set [of 0 ?s ?t ?conn ?cursor]
  obtain ks vs where k: "keys 0 ?s = (Inr ks, ?s)" and v: "values 0 ?s = (Inr vs, ?s)"
    and rest: "columns (heap ?t 0) = columns (heap ?s 0)
         \<and> (\<forall>a\<in>set (columns (heap ?s 0)). dict (heap ?t 0) a = dict (heap ?s 0) a)
       \<longrightarrow> keys 0 ?t = (Inr ks, ?t) \<and> values 0 ?t = (Inr vs, ?t)
           \<and> (table (heap ?t 0) = table (heap ?s 0) \<and> world ?t = world ?s
              \<longrightarrow> fst (save 0 ?conn ?cursor ?t) = fst (save 0 ?conn ?cursor ?s)
                \<and> world (snd (save 0 ?conn ?cursor ?t)) = world (snd (save 0 ?conn ?cursor ?s)))"
    by blast
  from k have ks: "ks = [''name'', ''birthday'']"
    by (simp add: keys_def session_def user_def User_def contains_def)
  from v have vs: "vs = [''bob'', ''3/5/1997'']"
    by (simp add: values_def session_def user_def User_def contains_def getitem_def)
  from rest hyp same have "keys 0 ?t = (Inr ks, ?t)" and "values 0 ?t = (Inr vs, ?t)"
    and "world (snd (save 0 ?conn ?cursor ?t)) = world (snd (save 0 ?conn ?cursor ?s))"
    by blast+
  moreover have "dict (heap ?t 0) ''nickname'' = Some ''bobby''"
    and "''id'' \<in> set (columns (heap ?s 0))" and "dict (heap ?s 0) ''id'' = None"
    by (simp_all add: session_def user_def User_def)
  ultimately show ?thesis
    by (simp only: ks vs simp_thms)
qed

subsection \<open>What \<open>save\<close> does\<close>

lemma save_recording_eq:
  fixes s :: "('v, 'v event list) state"
  assumes "ks = filter (contains (dict (heap s obj))) (columns (heap s obj))"
    and "params = List.map_filter (dict (heap s obj)) (columns (heap s obj))"
    and "stmt = ''INSERT INTO '' @ table (heap s obj) @ '' ('' @ str_list ks @ '') VALUES (''
                  @ join '', '' (replicate (length params) ''%s'') @ '');''"
  shows "save obj (recording_conn commit_raises) (recording_cursor execute_raises) s =
        (case execute_raises stmt params (world s) of
           Some e \<Rightarrow> (Inl e, s\<lparr>world := world s @ [Execute stmt params]\<rparr>)
         | None \<Rightarrow>
             (case commit_raises (world s @ [Execute stmt params]) of
                Some e \<Rightarrow> (Inl e, s\<lparr>world := world s @ [Execute stmt params, Commit]\<rparr>)
              | None \<Rightarrow> (Inr (), s\<lparr>world := world s @ [Execute stmt params, Commit]\<rparr>)))"
  by (simp add: assms save_eq recording_conn_def recording_cursor_def split: option.splits)

text \<open>
  C7. With the recording connection and cursor, whatever they raise: \<open>save\<close> makes one
  \<open>execute\<close> call, with an \<open>INSERT INTO\<close> text and the values as parameters. When that
  call raises, its exception is the result of \<open>save\<close> and nothing else was called; when
  it returns, \<open>commit\<close> is called, on every path, and \<open>save\<close> returns \<open>None\<close> (or raises
  what \<open>commit\<close> raised). The log never gets a \<open>Rollback\<close>, no call is repeated, and the
  objects are as before.
\<close>

theorem save_executes_once_then_commits:
  fixes s :: "('v, 'v event list) state" and obj :: ref
  defines "ks \<equiv> filter (contains (dict (heap s obj))) (columns (heap s obj))"
  defines "params \<equiv> List.map_filter (dict (heap s obj)) (columns (heap s obj))"
  defines "stmt \<equiv> ''INSERT INTO '' @ table (heap s obj) @ '' ('' @ str_list ks @ '') VALUES (''
                    @ join '', '' (replicate (length params) ''%s'') @ '');''"
  shows "values obj s = (Inr params, s) \<and> keys obj s = (Inr ks, s)
    \<and> save obj (recording_conn commit_raises) (recording_cursor execute_raises) s =
        (case execute_raises stmt params (world s) of
           Some e \<Rightarrow> (Inl e, s\<lparr>world := world s @ [Execute stmt params]\<rparr>)
         | None \<Rightarrow>
             (case commit_raises (world s @ [Execute stmt params]) of
                Some e \<Rightarrow> (Inl e, s\<lparr>world := world s @ [Execute stmt params, Commit]\<rparr>)
              | None \<Rightarrow> (Inr (), s\<lparr>world := world s @ [Execute stmt params, Commit]\<rparr>)))"
proof -
  have k: "ks = filter (contains (dict (heap s obj))) (columns (heap s obj))"
    and p: "params = List.map_filter (dict (heap s obj)) (columns (heap s obj))"
    by (simp_all only: ks_def params_def)
  have st: "stmt = ''INSERT INTO '' @ table (heap s obj) @ '' ('' @ str_list ks @ '') VALUES (''
                    @ join '', '' (replicate (length params) ''%s'') @ '');''"
    by (simp only: stmt_def)
  show ?thesis
    using save_recording_eq [OF k p st, of commit_raises execute_raises]
    by (simp only: values_eq keys_eq k p simp_thms)
qed

theorem save_executes_once_then_commits_witness:
  "save 0 (recording_conn (\<lambda>log. None))
      (recording_cursor (\<lambda>sql params log. Some (DatabaseError ''duplicate key''))) (session user)
    = (Inl (DatabaseError ''duplicate key''),
       (session user)\<lparr>world :=
          [Execute ''INSERT INTO users (['name', 'birthday']) VALUES (%s, %s);''
             [''bob'', ''3/5/1997'']]\<rparr>)
   \<and> save 0 (recording_conn (\<lambda>log. Some (DatabaseError ''connection lost'')))
      (recording_cursor (\<lambda>sql params log. None)) (session user)
    = (Inl (DatabaseError ''connection lost''),
       (session user)\<lparr>world :=
          [Execute ''INSERT INTO users (['name', 'birthday']) VALUES (%s, %s);''
             [''bob'', ''3/5/1997''], Commit]\<rparr>)"
  using save_executes_once_then_commits
      [of 0 "session user" "\<lambda>log. None" "\<lambda>sql params log. Some (DatabaseError ''duplicate key'')"]
    save_executes_once_then_commits
      [of 0 "session user" "\<lambda>log. Some (DatabaseError ''connection lost'')" "\<lambda>sql params log. None"]
  by (simp add: session_def user_def User_def contains_def map_filter_simps
      str_list_def repr_str_def repr_char_def printable_def Let_def)

text \<open>
  C8. When a first \<open>save\<close> returned, a second \<open>save\<close> of the same object, with the same
  connection and cursor, calls \<open>execute\<close> again with the same statement text and the
  same parameters: the log holds two \<open>Execute\<close> entries that are equal, with the first
  \<open>Commit\<close> between them, and then the second \<open>Commit\<close> unless the second \<open>execute\<close>
  raised.
\<close>

theorem save_twice_two_inserts:
  fixes s s1 :: "('v, 'v event list) state" and obj :: ref
  defines "ks \<equiv> filter (contains (dict (heap s obj))) (columns (heap s obj))"
  defines "params \<equiv> List.map_filter (dict (heap s obj)) (columns (heap s obj))"
  defines "stmt \<equiv> ''INSERT INTO '' @ table (heap s obj) @ '' ('' @ str_list ks @ '') VALUES (''
                    @ join '', '' (replicate (length params) ''%s'') @ '');''"
  assumes first: "save obj (recording_conn commit_raises) (recording_cursor execute_raises) s
                   = (Inr (), s1)"
  shows "heap s1 = heap s \<and> world s1 = world s @ [Execute stmt params, Commit]
    \<and> (\<exists>r rest. save obj (recording_conn commit_raises) (recording_cursor execute_raises) s1
          = (r, s1\<lparr>world := world s @ [Execute stmt params, Commit, Execute stmt params] @ rest\<rparr>)
        \<and> (rest = [] \<or> rest = [Commit]))"
proof -
  have k: "ks = filter (contains (dict (heap s obj))) (columns (heap s obj))"
    and p: "params = List.map_filter (dict (heap s obj)) (columns (heap s obj))"
    by (simp_all only: ks_def params_def)
  have st: "stmt = ''INSERT INTO '' @ table (heap s obj) @ '' ('' @ str_list ks @ '') VALUES (''
                    @ join '', '' (replicate (length params) ''%s'') @ '');''"
    by (simp only: stmt_def)
  from first have s1: "s1 = s\<lparr>world := world s @ [Execute stmt params, Commit]\<rparr>"
    unfolding save_recording_eq [OF k p st, of commit_raises execute_raises]
    by (auto split: option.splits)
  then have h: "heap s1 = heap s" and w: "world s1 = world s @ [Execute stmt params, Commit]"
    by simp_all
  have k1: "ks = filter (contains (dict (heap s1 obj))) (columns (heap s1 obj))"
    and p1: "params = List.map_filter (dict (heap s1 obj)) (columns (heap s1 obj))"
    by (simp_all only: h k p)
  have st1: "stmt = ''INSERT INTO '' @ table (heap s1 obj) @ '' ('' @ str_list ks @ '') VALUES (''
                    @ join '', '' (replicate (length params) ''%s'') @ '');''"
    by (simp only: h st)
  note second = save_recording_eq [OF k1 p1 st1, of commit_raises execute_raises]
  have "\<exists>r rest. save obj (recording_conn commit_raises) (recording_cursor execute_raises) s1
          = (r, s1\<lparr>world := world s @ [Execute stmt params, Commit, Execute stmt params] @ rest\<rparr>)
        \<and> (rest = [] \<or> rest = [Commit])"
  proof (cases "execute_raises stmt params (world s1)")
    case (Some e)
    then have "save obj (recording_conn commit_raises) (recording_cursor execute_raises) s1
      = (Inl e, s1\<lparr>world := world s @ [Execute stmt params, Commit, Execute stmt params] @ []\<rparr>)"
      by (simp add: second w)
    then show ?thesis by blast
  next
    case None
    then obtain r where "save obj (recording_conn commit_raises) (recording_cursor execute_raises) s1
      = (r, s1\<lparr>world := world s @ [Execute stmt params, Commit, Execute stmt params] @ [Commit]\<rparr>)"
      by (cases "commit_raises (world s1 @ [Execute stmt params])") (simp_all add: second w)
    then show ?thesis by blast
  qed
  with h w show ?thesis by blast
qed

theorem save_twice_two_inserts_witness:
  "save 0 (recording_conn (\<lambda>log. None)) (recording_cursor (\<lambda>sql params log. None)) (session user)
    = (Inr (), (session user)\<lparr>world :=
         [Execute ''INSERT INTO users (['name', 'birthday']) VALUES (%s, %s);''
            [''bob'', ''3/5/1997''], Commit]\<rparr>)
   \<and> (\<exists>r rest.
        save 0 (recording_conn (\<lambda>log. None)) (recording_cursor (\<lambda>sql params log. None))
          ((session user)\<lparr>world :=
             [Execute ''INSERT INTO users (['name', 'birthday']) VALUES (%s, %s);''
                [''bob'', ''3/5/1997''], Commit]\<rparr>)
        = (r, (session user)\<lparr>world :=
             [Execute ''INSERT INTO users (['name', 'birthday']) VALUES (%s, %s);''
                [''bob'', ''3/5/1997''], Commit,
              Execute ''INSERT INTO users (['name', 'birthday']) VALUES (%s, %s);''
                [''bob'', ''3/5/1997'']] @ rest\<rparr>)
        \<and> (rest = [] \<or> rest = [Commit]))"
proof -
  let ?conn = "recording_conn (\<lambda>log. None) :: string event list conn"
  let ?cursor = "recording_cursor (\<lambda>sql params log. None) :: (string, string event list) cursor"
  let ?s1 = "(session user)\<lparr>world :=
         [Execute ''INSERT INTO users (['name', 'birthday']) VALUES (%s, %s);''
            [''bob'', ''3/5/1997''], Commit]\<rparr>"
  have first: "save 0 ?conn ?cursor (session user) = (Inr (), ?s1)"
    by (simp add: save_def Let_def ex_defs)
  show ?thesis
    using first save_twice_two_inserts [OF first]
    by (simp add: session_def user_def User_def contains_def map_filter_simps
        str_list_def repr_str_def repr_char_def printable_def Let_def)
qed

subsection \<open>Reads only\<close>

text \<open>
  C9. \<open>keys\<close> and \<open>values\<close> return the state they were given: no object, and so neither
  the dictionary nor the columns list of the argument, is changed. A second call, of
  either function after either, returns what the first call of that function returns.
  The result depends on the columns and the dictionary of the object only: another
  object with the same two, in any state, gives the same results.
\<close>

theorem keys_values_read_only:
  fixes s :: "('v, 'w) state" and t :: "('v, 'u) state"
  shows "snd (keys obj s) = s \<and> snd (values obj s) = s
     \<and> fst (keys obj (snd (keys obj s))) = fst (keys obj s)
     \<and> fst (values obj (snd (values obj s))) = fst (values obj s)
     \<and> fst (keys obj (snd (values obj s))) = fst (keys obj s)
     \<and> fst (values obj (snd (keys obj s))) = fst (values obj s)
     \<and> (columns (heap t obj') = columns (heap s obj) \<and> dict (heap t obj') = dict (heap s obj)
        \<longrightarrow> fst (keys obj' t) = fst (keys obj s) \<and> fst (values obj' t) = fst (values obj s))"
  by (simp add: keys_def values_def)

theorem keys_values_read_only_witness:
  "columns (heap \<lparr>heap = (\<lambda>r. user\<lparr>table := ''people''\<rparr>), world = [Commit :: string event]\<rparr> 1)
     = columns (heap (session user) 0)
   \<and> dict (heap \<lparr>heap = (\<lambda>r. user\<lparr>table := ''people''\<rparr>), world = [Commit :: string event]\<rparr> 1)
     = dict (heap (session user) 0)
   \<and> fst (keys 1 \<lparr>heap = (\<lambda>r. user\<lparr>table := ''people''\<rparr>), world = [Commit :: string event]\<rparr>)
     = fst (keys 0 (session user))
   \<and> fst (values 1 \<lparr>heap = (\<lambda>r. user\<lparr>table := ''people''\<rparr>), world = [Commit :: string event]\<rparr>)
     = fst (values 0 (session user))
   \<and> snd (keys 0 (session user)) = session user
   \<and> snd (values 0 (session user)) = session user"
proof -
  let ?t = "\<lparr>heap = (\<lambda>r. user\<lparr>table := ''people''\<rparr>), world = [Commit :: string event]\<rparr>"
  have h: "columns (heap ?t 1) = columns (heap (session user) 0)
      \<and> dict (heap ?t 1) = dict (heap (session user) 0)"
    by (simp add: session_def)
  from keys_values_read_only [of 0 "session user" ?t 1] h show ?thesis
    by blast
qed

subsection \<open>The statement text of the last cell\<close>

text \<open>
  The last cell's \<open>keys\<close> returns the list of names; the f-string of \<open>save\<close> inserts the
  \<open>str\<close> of that list, brackets and quotes included, between the parentheses of the
  column list. The cell that joins the names returns the text without them.
\<close>

lemma keys_joined_eq:
  "keys_joined obj s =
     (Inr (join '', '' (filter (contains (dict (heap s obj))) (columns (heap s obj)))), s)"
  by (simp add: keys_joined_def)

text \<open>
  C1. The notebook's example, evaluated: \<open>values\<close> gives the two values, \<open>keys\<close> gives the
  list of the two names and not the string \<open>name, birthday\<close>, and \<open>save\<close> executes
  \<open>INSERT INTO users (['name', 'birthday']) VALUES (%s, %s);\<close> with the two values and
  commits. The text differs from \<open>INSERT INTO users (name, birthday) VALUES (%s, %s);\<close>.
\<close>

theorem save_user_example:
  "keys 0 (session user) = (Inr [''name'', ''birthday''], session user)
   \<and> str_list [''name'', ''birthday''] = ''['name', 'birthday']''
   \<and> values 0 (session user) = (Inr [''bob'', ''3/5/1997''], session user)
   \<and> save 0 (recording_conn (\<lambda>log. None)) (recording_cursor (\<lambda>sql params log. None)) (session user)
       = (Inr (), (session user)\<lparr>world :=
            [Execute ''INSERT INTO users (['name', 'birthday']) VALUES (%s, %s);''
               [''bob'', ''3/5/1997''], Commit]\<rparr>)
   \<and> ''INSERT INTO users (['name', 'birthday']) VALUES (%s, %s);''
       \<noteq> ''INSERT INTO users (name, birthday) VALUES (%s, %s);''"
  by (simp add: save_def Let_def ex_defs)

text \<open>
  C2. On the example, \<open>keys\<close> of the last cell returns a list of two strings;
  the earlier definition with the join returns the one string \<open>name, birthday\<close>.
\<close>

theorem keys_user_example:
  "keys 0 (session user) = (Inr [''name'', ''birthday''], session user)
   \<and> keys_joined 0 (session user) = (Inr ''name, birthday'', session user)"
  by (simp add: Let_def ex_defs)

text \<open>
  C6. The statement text for a two-column object: the parenthesis after the table name
  holds the printed list \<open>['name', 'age']\<close>, not the names separated by commas; the
  placeholders, the parameters and the commit are as expected.
\<close>

theorem save_statement_text_example:
  "save 0 (recording_conn (\<lambda>log. None)) (recording_cursor (\<lambda>sql params log. None))
      (session \<lparr>table = ''pets'', columns = [''name'', ''age''],
                dict = [''name'' \<mapsto> 1, ''age'' \<mapsto> (2::int)]\<rparr>)
    = (Inr (), (session \<lparr>table = ''pets'', columns = [''name'', ''age''],
                dict = [''name'' \<mapsto> 1, ''age'' \<mapsto> (2::int)]\<rparr>)\<lparr>world :=
         [Execute ''INSERT INTO pets (['name', 'age']) VALUES (%s, %s);'' [1, 2], Commit]\<rparr>)
   \<and> ''INSERT INTO pets (['name', 'age']) VALUES (%s, %s);''
       \<noteq> ''INSERT INTO pets (name, age) VALUES (%s, %s);''"
  by (simp add: save_def Let_def ex_defs)

text \<open>
  C10. An instance with no attribute set: nothing raises, the parameter list and the
  placeholder string are empty, \<open>execute\<close> and \<open>commit\<close> are called, and the statement
  text is \<open>INSERT INTO users ([]) VALUES ();\<close>, with the printed empty list between the
  first parentheses.
\<close>

theorem save_no_attributes_example:
  "save 0 (recording_conn (\<lambda>log. None)) (recording_cursor (\<lambda>sql params log. None)) (session User)
    = (Inr (), (session User)\<lparr>world := [Execute ''INSERT INTO users ([]) VALUES ();'' [], Commit]\<rparr>)
   \<and> ''INSERT INTO users ([]) VALUES ();'' \<noteq> ''INSERT INTO users () VALUES ();''"
  by (simp add: save_def Let_def ex_defs)

end
